theory Spec2Isabelle
  imports Main
begin

section \<open>Data model of \<^verbatim>\<open>index.ts\<close>\<close>

text \<open>
  \<^verbatim>\<open>export type Signature<K> = { readonly __type: K };\<close>

  The dispatcher is typed \<^verbatim>\<open>In extends Signature<string>\<close>: a value with a string field
  \<^verbatim>\<open>__type\<close> and any further payload fields. This is an extensible record; its field
  is called \<open>u_type\<close> because an Isabelle name cannot begin with an underscore, and the
  payload is the extension part \<open>'p\<close>.
\<close>

record Signature =
  u_type :: string

text \<open>
  A handler is a JavaScript function of one argument. It may read and write anything the
  caller can reach, so it is a transformer of the caller's world \<open>'s\<close> that also yields
  its completion \<open>'o\<close>. The world stands for all the mutable state and the input and output
  there is; the dispatcher is handed it too, so that whether it reads or writes any of it is
  a matter of its definition. The dispatcher never looks inside \<open>'o\<close>.
\<close>

type_synonym ('p, 's, 'o) handler = "'p Signature_scheme \<Rightarrow> 's \<Rightarrow> 'o \<times> 's"

text \<open>
  \<^verbatim>\<open>ExhausiveMatches<Unity, Out>\<close> is a plain object whose properties hold handlers. It is
  kept as the list of its own enumerable properties in the order \<^verbatim>\<open>Object.entries\<close>
  yields them. An object has every key once: \<open>distinct (map fst matchers)\<close>.

  \<^verbatim>\<open>Matches\<close> types every property as a function, but the first arm of the union is
  \<^verbatim>\<open>{ "*": ... } & Partial<Matches<Unity, Out>>\<close>, and an optional property may be written
  out with the value \<^verbatim>\<open>undefined\<close>: \<^verbatim>\<open>{ "*": f, text: undefined }\<close> is a table the
  parameter type admits. So a property holds \<open>Some\<close> function or \<open>None\<close>, the value
  \<^verbatim>\<open>undefined\<close>; such a property is still an entry of \<^verbatim>\<open>Object.entries\<close> and still
  answers \<^verbatim>\<open>in\<close>.
\<close>

type_synonym ('p, 's, 'o) ExhausiveMatches =
  "(string \<times> ('p, 's, 'o) handler option) list"

text \<open>
  The value built by \<^verbatim>\<open>new Error(msg)\<close>: an object of the generic class, whose
  \<^verbatim>\<open>name\<close> is \<^verbatim>\<open>"Error"\<close> and whose \<^verbatim>\<open>message\<close> is the argument.
\<close>

record js_error =
  error_name :: string
  error_message :: string

definition new_Error :: "string \<Rightarrow> js_error" where
  "new_Error msg = \<lparr>error_name = ''Error'', error_message = msg\<rparr>"

text \<open>
  Calling a value that is not a function throws a \<^verbatim>\<open>TypeError\<close>. The language fixes the
  class of that error and leaves the wording of its message to the engine; the wording kept
  here is the part engines have in common, and nothing below reads it.
\<close>

definition not_a_function :: js_error where
  "not_a_function = \<lparr>error_name = ''TypeError'', error_message = ''is not a function''\<rparr>"

text \<open>
  What one call of the dispatcher amounts to for its caller: the value returned or the error
  thrown, the world it leaves, and the handler calls it made (the key of the entry called and
  the argument passed), in order.
\<close>

record ('p, 's, 'o) completion =
  outcome :: "js_error + 'o"
  world :: 's
  invoked :: "(string \<times> 'p Signature_scheme) list"

section \<open>The dispatcher\<close>

text \<open>\<^verbatim>\<open>throw e\<close>: no handler runs and the world stays as it is.\<close>

definition throw :: "js_error \<Rightarrow> 's \<Rightarrow> ('p, 's, 'o) completion" where
  "throw e s = \<lparr>outcome = Inl e, world = s, invoked = []\<rparr>"

text \<open>
  \<^verbatim>\<open>return (handler as (input: In) => Out)(input)\<close> and \<^verbatim>\<open>return matchers["*"](input)\<close>:
  the call expression by which the source runs the value of a property. The cast is erased
  when the program is compiled. If the value is a function, it runs on the input and the
  dispatcher returns what it returns; if the value is \<^verbatim>\<open>undefined\<close>, the call expression
  itself throws, and no handler has run.
\<close>

definition call ::
  "string \<Rightarrow> ('p, 's, 'o) handler option \<Rightarrow> 'p Signature_scheme \<Rightarrow> 's
     \<Rightarrow> ('p, 's, 'o) completion" where
  "call key handler input s =
     (case handler of
        None \<Rightarrow> throw not_a_function s
      | Some f \<Rightarrow>
          (case f input s of
             (out, s') \<Rightarrow> \<lparr>outcome = Inr out, world = s', invoked = [(key, input)]\<rparr>))"

text \<open>
  \<^verbatim>\<open>
  for (const [key, handler] of Object.entries(matchers)) {
    if (input.__type === key) {
      return (handler as (input: In) => Out)(input);
    }
  }
  \<close>
  \<open>None\<close> is the loop running off the end of the entries.
\<close>

fun for_entries ::
  "('p, 's, 'o) ExhausiveMatches \<Rightarrow> 'p Signature_scheme \<Rightarrow> 's \<Rightarrow> ('p, 's, 'o) completion option" where
  "for_entries [] input s = None"
| "for_entries ((key, handler) # rest) input s =
     (if u_type input = key then Some (call key handler input s)
      else for_entries rest input s)"

text \<open>
  \<^verbatim>\<open>
  export function match(input, matchers) {
    for ... (above)
    if ("*" in matchers) {
      return matchers["*"](input);
    }
    throw new Error("Pattern unmacthed");
  }
  \<close>
  On a plain object \<^verbatim>\<open>"*" in matchers\<close> holds exactly when the object has a property
  \<^verbatim>\<open>"*"\<close>, whatever its value, and \<^verbatim>\<open>matchers["*"]\<close> is then that value: both are the
  one \<open>map_of\<close>.
\<close>

definition match ::
  "'p Signature_scheme \<Rightarrow> ('p, 's, 'o) ExhausiveMatches \<Rightarrow> 's \<Rightarrow> ('p, 's, 'o) completion" where
  "match input matchers s =
     (case for_entries matchers input s of
        Some completed \<Rightarrow> completed
      | None \<Rightarrow>
          (case map_of matchers ''*'' of
             Some wildcard \<Rightarrow> call ''*'' wildcard input s
           | None \<Rightarrow> throw (new_Error ''Pattern unmacthed'') s))"

text \<open>
  \<^verbatim>\<open>
  export function matches(matchers) {
    return (input) => match(input, matchers);
  }
  \<close>
\<close>

definition matches ::
  "('p, 's, 'o) ExhausiveMatches \<Rightarrow> 'p Signature_scheme \<Rightarrow> 's \<Rightarrow> ('p, 's, 'o) completion" where
  "matches matchers = (\<lambda>input. match input matchers)"

section \<open>Handlers without effects\<close>

text \<open>
  A pure handler computes its result from its argument alone and leaves the world as it
  found it. A table of pure handlers is a table of such functions, each run this way.
\<close>

definition pure_handler :: "('p Signature_scheme \<Rightarrow> 'o) \<Rightarrow> ('p, 's, 'o) handler" where
  "pure_handler f = (\<lambda>input s. (f input, s))"

definition pure_matchers ::
  "(string \<times> ('p Signature_scheme \<Rightarrow> 'o)) list \<Rightarrow> ('p, 's, 'o) ExhausiveMatches" where
  "pure_matchers fs = map (\<lambda>(key, f). (key, Some (pure_handler f))) fs"

section \<open>The values of the README\<close>

text \<open>
  \<^verbatim>\<open>
  type WebSocketMessage = Union<{
    "text": { message: string },
    "binary": { length: number }
  }>;
  \<close>
  together with the bare \<^verbatim>\<open>{ __type: "unknown" }\<close> of the default-case example. The
  handlers of the README print to the console, which is the world here: the lines printed so
  far.
\<close>

datatype ws_payload = Message string | Length int | Bare

definition text_hello :: "ws_payload Signature_scheme" where
  "text_hello = \<lparr>u_type = ''text'', \<dots> = Message ''Hello!''\<rparr>"

definition binary_ten :: "ws_payload Signature_scheme" where
  "binary_ten = \<lparr>u_type = ''binary'', \<dots> = Length 10\<rparr>"

definition unknown_msg :: "ws_payload Signature_scheme" where
  "unknown_msg = \<lparr>u_type = ''unknown'', \<dots> = Bare\<rparr>"

definition star_msg :: "ws_payload Signature_scheme" where
  "star_msg = \<lparr>u_type = ''*'', \<dots> = Bare\<rparr>"

definition text_bye :: "ws_payload Signature_scheme" where
  "text_bye = \<lparr>u_type = ''text'', \<dots> = Message ''Bye''\<rparr>"

text \<open>
  \<^verbatim>\<open>text: ({ message }) => console.log(message)\<close> and its siblings. The README's
  handlers return nothing; here each returns a number of its own, so that the result tells
  which one ran.
\<close>

definition log_text :: "(ws_payload, string list, nat) handler" where
  "log_text =
     (\<lambda>input console.
        (1, console @ [case Signature.more input of Message m \<Rightarrow> m | _ \<Rightarrow> ''undefined'']))"

definition log_binary :: "(ws_payload, string list, nat) handler" where
  "log_binary = (\<lambda>input console. (2, console @ [''Got binary'']))"

definition log_unexpected :: "(ws_payload, string list, nat) handler" where
  "log_unexpected = (\<lambda>input console. (3, console @ [''Got an unexpected message'']))"

definition ws_matchers :: "(ws_payload, string list, nat) ExhausiveMatches" where
  "ws_matchers = [(''text'', Some log_text), (''binary'', Some log_binary)]"

definition ws_matchers_default :: "(ws_payload, string list, nat) ExhausiveMatches" where
  "ws_matchers_default =
     [(''text'', Some log_text), (''binary'', Some log_binary), (''*'', Some log_unexpected)]"

text \<open>\<^verbatim>\<open>{ "*": ..., text: undefined }\<close>: a default, and the optional pattern written out.\<close>

definition ws_matchers_partial :: "(ws_payload, string list, nat) ExhausiveMatches" where
  "ws_matchers_partial = [(''*'', Some log_unexpected), (''text'', None)]"

text \<open>The same three patterns with handlers that print nothing.\<close>

definition ws_pure :: "(string \<times> (ws_payload Signature_scheme \<Rightarrow> ws_payload)) list" where
  "ws_pure =
     [(''text'', \<lambda>input. Signature.more input),
      (''binary'', \<lambda>input. Signature.more input),
      (''*'', \<lambda>input. Bare)]"

section \<open>The call expression\<close>

lemma call_undefined:
  "call key None input s = throw not_a_function s"
  by (simp add: call_def)

lemma call_function:
  "call key (Some f) input s =
     \<lparr>outcome = Inr (fst (f input s)), world = snd (f input s), invoked = [(key, input)]\<rparr>"
  by (simp add: call_def split: prod.splits)

lemma call_returned:
  assumes "outcome (call key handler input s) = Inr r"
  shows "\<exists>f. handler = Some f
           \<and> invoked (call key handler input s) = [(key, input)]
           \<and> f input s = (r, world (call key handler input s))"
  using assms
  by (cases handler) (simp_all add: call_undefined call_function throw_def prod_eq_iff)

lemma call_threw:
  assumes "outcome (call key handler input s) = Inl e"
  shows "handler = None" and "e = not_a_function"
    and "invoked (call key handler input s) = []" and "world (call key handler input s) = s"
  using assms
  by (cases handler; simp add: call_undefined call_function throw_def)+

lemma invoked_call:
  "invoked (call key handler input s) = (case handler of None \<Rightarrow> [] | Some f \<Rightarrow> [(key, input)])"
  by (cases handler) (simp_all add: call_undefined call_function throw_def)

section \<open>The loop and the two lookups\<close>

text \<open>
  The loop stops at the first entry whose key is the discriminant, which is the entry an
  association-list lookup finds.
\<close>

lemma for_entries_map_of:
  "for_entries matchers input s =
     map_option (\<lambda>handler. call (u_type input) handler input s)
       (map_of matchers (u_type input))"
  by (induction matchers) auto

lemma for_entries_None_iff:
  "for_entries matchers input s = None \<longleftrightarrow> u_type input \<notin> fst ` set matchers"
  by (simp add: for_entries_map_of map_of_eq_None_iff)

lemma for_entries_member:
  assumes "distinct (map fst matchers)" and "(u_type input, handler) \<in> set matchers"
  shows "for_entries matchers input s = Some (call (u_type input) handler input s)"
  using assms by (simp add: for_entries_map_of)

lemma for_entries_SomeD:
  assumes "for_entries matchers input s = Some completed"
  shows "\<exists>handler. (u_type input, handler) \<in> set matchers
           \<and> completed = call (u_type input) handler input s"
  using assms by (auto simp: for_entries_map_of dest: map_of_SomeD)

lemma match_scan_hit:
  "for_entries matchers input s = Some completed \<Longrightarrow> match input matchers s = completed"
  by (simp add: match_def)

lemma match_scan_miss:
  "u_type input \<notin> fst ` set matchers \<Longrightarrow>
     match input matchers s =
       (case map_of matchers ''*'' of
          Some wildcard \<Rightarrow> call ''*'' wildcard input s
        | None \<Rightarrow> throw (new_Error ''Pattern unmacthed'') s)"
  by (simp add: match_def for_entries_None_iff [THEN iffD2])

lemma match_hit:
  assumes "distinct (map fst matchers)" and "(u_type input, handler) \<in> set matchers"
  shows "match input matchers s = call (u_type input) handler input s"
  by (rule match_scan_hit) (rule for_entries_member [OF assms])

lemma match_default:
  assumes "distinct (map fst matchers)" and "u_type input \<notin> fst ` set matchers"
    and "(''*'', wildcard) \<in> set matchers"
  shows "match input matchers s = call ''*'' wildcard input s"
proof -
  from assms(1,3) have "map_of matchers ''*'' = Some wildcard"
    by simp
  with assms(2) show ?thesis
    by (simp add: match_scan_miss)
qed

lemma match_thrown:
  assumes "u_type input \<notin> fst ` set matchers" and "''*'' \<notin> fst ` set matchers"
  shows "match input matchers s = throw (new_Error ''Pattern unmacthed'') s"
proof -
  from assms(2) have "map_of matchers ''*'' = None"
    by (simp add: map_of_eq_None_iff)
  with assms(1) show ?thesis
    by (simp add: match_scan_miss)
qed

text \<open>Every run of the dispatcher ends in one of three ways.\<close>

lemma match_cases:
  obtains (exact) handler where "(u_type input, handler) \<in> set matchers"
      and "map_of matchers (u_type input) = Some handler"
      and "match input matchers s = call (u_type input) handler input s"
  | (default) wildcard where "u_type input \<notin> fst ` set matchers"
      and "(''*'', wildcard) \<in> set matchers"
      and "map_of matchers ''*'' = Some wildcard"
      and "match input matchers s = call ''*'' wildcard input s"
  | (unmatched) "u_type input \<notin> fst ` set matchers" and "''*'' \<notin> fst ` set matchers"
      and "match input matchers s = throw (new_Error ''Pattern unmacthed'') s"
proof (cases "map_of matchers (u_type input)")
  case (Some handler)
  then have "for_entries matchers input s = Some (call (u_type input) handler input s)"
    by (simp add: for_entries_map_of)
  then have "match input matchers s = call (u_type input) handler input s"
    by (rule match_scan_hit)
  with Some show ?thesis
    by (intro exact [of handler]) (simp_all add: map_of_SomeD)
next
  case None
  then have miss: "u_type input \<notin> fst ` set matchers"
    by (simp add: map_of_eq_None_iff)
  show ?thesis
  proof (cases "map_of matchers ''*''")
    case None
    then have "''*'' \<notin> fst ` set matchers"
      by (simp add: map_of_eq_None_iff)
    with miss show ?thesis
      by (intro unmatched) (simp_all add: match_thrown)
  next
    case (Some wildcard)
    then have "(''*'', wildcard) \<in> set matchers"
      by (rule map_of_SomeD)
    with miss Some show ?thesis
      by (intro default [of wildcard]) (simp_all add: match_scan_miss)
  qed
qed


lemma match_threw:
  assumes "outcome (match input matchers s) = Inl e"
  shows "invoked (match input matchers s) = []" and "world (match input matchers s) = s"
    and "e = new_Error ''Pattern unmacthed'' \<or> e = not_a_function"
proof -
  have "invoked (match input matchers s) = [] \<and> world (match input matchers s) = s
        \<and> (e = new_Error ''Pattern unmacthed'' \<or> e = not_a_function)"
  proof (cases rule: match_cases [of input matchers s])
    case (exact handler)
    with assms call_threw [of "u_type input" handler input s e] show ?thesis
      by simp
  next
    case (default wildcard)
    with assms call_threw [of "''*''" wildcard input s e] show ?thesis
      by simp
  next
    case unmatched
    with assms show ?thesis
      by (simp add: throw_def)
  qed
  then show "invoked (match input matchers s) = []" and "world (match input matchers s) = s"
    and "e = new_Error ''Pattern unmacthed'' \<or> e = not_a_function"
    by simp_all
qed

lemma map_of_pure_matchers:
  "map_of (pure_matchers fs) key = map_option (\<lambda>f. Some (pure_handler f)) (map_of fs key)"
  by (induction fs) (auto simp: pure_matchers_def)

lemma match_lookup:
  "match input matchers s =
     (case map_of matchers (u_type input) of
        Some handler \<Rightarrow> call (u_type input) handler input s
      | None \<Rightarrow>
          (case map_of matchers ''*'' of
             Some wildcard \<Rightarrow> call ''*'' wildcard input s
           | None \<Rightarrow> throw (new_Error ''Pattern unmacthed'') s))"
  by (simp add: match_def for_entries_map_of split: option.splits)

lemma invoked_match:
  "invoked (match input matchers s) =
     (case map_of matchers (u_type input) of
        Some handler \<Rightarrow> (case handler of None \<Rightarrow> [] | Some f \<Rightarrow> [(u_type input, input)])
      | None \<Rightarrow>
          (case map_of matchers ''*'' of
             Some wildcard \<Rightarrow> (case wildcard of None \<Rightarrow> [] | Some f \<Rightarrow> [(''*'', input)])
           | None \<Rightarrow> []))"
  by (simp add: match_lookup invoked_call throw_def split: option.splits)

lemmas ws_values =
  text_hello_def text_bye_def binary_ten_def unknown_msg_def star_msg_def
  log_text_def log_binary_def log_unexpected_def ws_matchers_def ws_matchers_default_def
  ws_matchers_partial_def ws_pure_def

lemmas dispatcher_defs =
  match_def matches_def call_def throw_def new_Error_def not_a_function_def

section \<open>Exact entries\<close>

text \<open>
  C1. If the handler table has an entry whose key is the discriminant of the value, the
  dispatcher returns what that entry's handler returns on the value, leaves the world as that
  handler leaves it, and the only handler call made is the call of that entry on the value.
  The table may hold any other entries, a \<^verbatim>\<open>"*"\<close> among them: none of them is called.
\<close>

theorem match_exact_entry:
  assumes "distinct (map fst H)" and "(u_type v, Some h) \<in> set H"
  shows "match v H s =
           \<lparr>outcome = Inr (fst (h v s)), world = snd (h v s), invoked = [(u_type v, v)]\<rparr>"
  using match_hit [OF assms] by (simp add: call_function)

theorem match_exact_entry_witness:
  "distinct (map fst ws_matchers_default)
   \<and> (u_type text_hello, Some log_text) \<in> set ws_matchers_default
   \<and> match text_hello ws_matchers_default [] =
       \<lparr>outcome = Inr 1, world = [''Hello!''], invoked = [(''text'', text_hello)]\<rparr>"
  using match_exact_entry [of ws_matchers_default text_hello log_text "[]"]
  by (simp add: ws_values)

section \<open>The wildcard\<close>

text \<open>
  C2. If no key of the handler table is the discriminant of the value and the table has an
  entry under \<^verbatim>\<open>"*"\<close>, the dispatcher returns what the wildcard handler returns on the
  whole value, and that call is the only one made.
\<close>

theorem match_wildcard_entry:
  assumes "distinct (map fst H)" and "u_type v \<notin> fst ` set H"
    and "(''*'', Some w) \<in> set H"
  shows "match v H s =
           \<lparr>outcome = Inr (fst (w v s)), world = snd (w v s), invoked = [(''*'', v)]\<rparr>"
  using match_default [OF assms] by (simp add: call_function)

theorem match_wildcard_entry_witness:
  "distinct (map fst ws_matchers_default)
   \<and> u_type unknown_msg \<notin> fst ` set ws_matchers_default
   \<and> (''*'', Some log_unexpected) \<in> set ws_matchers_default
   \<and> match unknown_msg ws_matchers_default [] =
       \<lparr>outcome = Inr 3, world = [''Got an unexpected message''],
        invoked = [(''*'', unknown_msg)]\<rparr>"
  using match_wildcard_entry [of ws_matchers_default unknown_msg log_unexpected "[]"]
  by (simp add: ws_values)

section \<open>The error\<close>




section \<open>The curried form\<close>

text \<open>
  C4. Applying the function that \<open>matches\<close> returns to a value is a call of \<open>match\<close> on
  that value and the table: the same completion from the same world. A second application
  starts from the world the first one left and is again a full call of \<open>match\<close>; the
  closure keeps nothing between the two.
\<close>

theorem matches_is_match:
  "matches H v s = match v H s
   \<and> matches H v' (world (matches H v s)) = match v' H (world (match v H s))"
  by (simp add: matches_def)

theorem matches_is_match_witness:
  "matches ws_matchers_default text_hello [] = match text_hello ws_matchers_default []
   \<and> world (matches ws_matchers_default text_hello []) = [''Hello!'']
   \<and> matches ws_matchers_default unknown_msg (world (matches ws_matchers_default text_hello []))
       = \<lparr>outcome = Inr 3, world = [''Hello!'', ''Got an unexpected message''],
          invoked = [(''*'', unknown_msg)]\<rparr>"
  using matches_is_match [of ws_matchers_default text_hello "[]" unknown_msg]
  by (simp add: ws_values dispatcher_defs)

section \<open>The loop comes first\<close>

text \<open>
  C5. Whenever the loop stops at an entry, what the loop returns is what the dispatcher
  returns: the lookup of \<^verbatim>\<open>"*"\<close> after the loop is reached only when the loop has run off
  the end, so an entry the loop finds shadows the wildcard. In particular, if the table has
  an entry under \<^verbatim>\<open>"*"\<close> and the discriminant of the value is \<^verbatim>\<open>"*"\<close>, the loop stops
  at that entry as at any other and calls its handler, once; nothing is handled twice.
\<close>

theorem match_scan_precedes_wildcard:
  "(for_entries H v s = Some c \<longrightarrow> match v H s = c)
   \<and> (distinct (map fst H') \<and> (''*'', Some h) \<in> set H' \<and> u_type v' = ''*'' \<longrightarrow>
        for_entries H' v' s' = Some (match v' H' s')
        \<and> match v' H' s' =
            \<lparr>outcome = Inr (fst (h v' s')), world = snd (h v' s'), invoked = [(''*'', v')]\<rparr>)"
proof (intro conjI impI)
  assume "for_entries H v s = Some c"
  then show "match v H s = c"
    by (rule match_scan_hit)
next
  assume star: "distinct (map fst H') \<and> (''*'', Some h) \<in> set H' \<and> u_type v' = ''*''"
  then have hit: "for_entries H' v' s' = Some (call ''*'' (Some h) v' s')"
    using for_entries_member [of H' v' "Some h" s'] by simp
  then have "match v' H' s' = call ''*'' (Some h) v' s'"
    by (rule match_scan_hit)
  with hit show "for_entries H' v' s' = Some (match v' H' s')"
    by simp
next
  assume star: "distinct (map fst H') \<and> (''*'', Some h) \<in> set H' \<and> u_type v' = ''*''"
  then have "for_entries H' v' s' = Some (call ''*'' (Some h) v' s')"
    using for_entries_member [of H' v' "Some h" s'] by simp
  then have "match v' H' s' = call ''*'' (Some h) v' s'"
    by (rule match_scan_hit)
  then show "match v' H' s' =
      \<lparr>outcome = Inr (fst (h v' s')), world = snd (h v' s'), invoked = [(''*'', v')]\<rparr>"
    by (simp add: call_function)
qed

text \<open>
  On \<^verbatim>\<open>{ "*": f, text: g }\<close> a \<^verbatim>\<open>text\<close> value passes the \<^verbatim>\<open>"*"\<close> entry in the loop
  and stops at \<^verbatim>\<open>text\<close>: what the loop returns is \<open>g\<close>'s call, not the wildcard's. On the
  README's table with a default, a \<^verbatim>\<open>"*"\<close> value stops the loop at the third entry.
\<close>

theorem match_scan_precedes_wildcard_witness:
  "for_entries [(''*'', Some log_unexpected), (''text'', Some log_text)] text_hello []
     = Some \<lparr>outcome = Inr 1, world = [''Hello!''], invoked = [(''text'', text_hello)]\<rparr>
   \<and> match text_hello [(''*'', Some log_unexpected), (''text'', Some log_text)] []
     = \<lparr>outcome = Inr 1, world = [''Hello!''], invoked = [(''text'', text_hello)]\<rparr>
   \<and> distinct (map fst ws_matchers_default)
   \<and> (''*'', Some log_unexpected) \<in> set ws_matchers_default
   \<and> u_type star_msg = ''*''
   \<and> for_entries ws_matchers_default star_msg [] = Some (match star_msg ws_matchers_default [])
   \<and> match star_msg ws_matchers_default [] =
       \<lparr>outcome = Inr 3, world = [''Got an unexpected message''],
        invoked = [(''*'', star_msg)]\<rparr>"
proof -
  have hit: "for_entries [(''*'', Some log_unexpected), (''text'', Some log_text)] text_hello []
      = Some \<lparr>outcome = Inr 1, world = [''Hello!''], invoked = [(''text'', text_hello)]\<rparr>"
    by (simp add: ws_values call_def)
  have star: "distinct (map fst ws_matchers_default)
      \<and> (''*'', Some log_unexpected) \<in> set ws_matchers_default \<and> u_type star_msg = ''*''"
    by (simp add: ws_values)
  from match_scan_precedes_wildcard
    [where H = "[(''*'', Some log_unexpected), (''text'', Some log_text)]"
       and v = text_hello and s = "[]"
       and c = "\<lparr>outcome = Inr 1, world = [''Hello!''], invoked = [(''text'', text_hello)]\<rparr>"
       and H' = ws_matchers_default and h = log_unexpected and v' = star_msg and s' = "[]"]
    hit star
  show ?thesis
    by (simp add: log_unexpected_def)
qed

section \<open>What a successful call does\<close>

text \<open>
  C6. When the dispatcher returns a result, it has called one entry of the table, once, on
  the value it was given, unchanged; the result is that handler's, and the world after the
  call is the world that handler's run produced from the world before the call. The
  dispatcher writes nothing of its own, before or after: whatever the handler leaves alone,
  the value and the table among it, is as it was.
\<close>

theorem match_returns_after_one_call:
  assumes "outcome (match v H s) = Inr r"
  shows "\<exists>key handler. (key, Some handler) \<in> set H
           \<and> invoked (match v H s) = [(key, v)]
           \<and> handler v s = (r, world (match v H s))"
proof (cases rule: match_cases [of v H s])
  case (exact slot)
  with assms call_returned [of "u_type v" slot v s r] show ?thesis
    by auto
next
  case (default slot)
  with assms call_returned [of "''*''" slot v s r] show ?thesis
    by auto
next
  case unmatched
  with assms show ?thesis
    by (simp add: throw_def)
qed

theorem match_returns_after_one_call_witness:
  "outcome (match binary_ten ws_matchers [''before'']) = Inr 2
   \<and> (\<exists>key handler. (key, Some handler) \<in> set ws_matchers
         \<and> invoked (match binary_ten ws_matchers [''before'']) = [(key, binary_ten)]
         \<and> handler binary_ten [''before'']
             = (2, world (match binary_ten ws_matchers [''before''])))"
proof -
  have returned: "outcome (match binary_ten ws_matchers [''before'']) = Inr 2"
    by (simp add: ws_values dispatcher_defs)
  from match_returns_after_one_call [OF returned] returned show ?thesis
    by simp
qed

section \<open>Determinism\<close>

text \<open>
  C7. The dispatcher reads its two arguments and nothing else. Whatever the handlers are,
  the entry it calls is fixed by the value and the table: runs from any two worlds call the
  same entry on the same value. On a table of pure handlers the whole completion is a
  function of the value and the table, the one written out below: the result of the handler
  under the discriminant, else of the one under \<^verbatim>\<open>"*"\<close>, else the error; so two runs
  produce equal results from any two worlds, and each leaves its world as it found it.
\<close>

theorem match_pure_deterministic:
  "invoked (match v H s1) = invoked (match v H s2)
   \<and> match v (pure_matchers fs) s =
       (case map_of fs (u_type v) of
          Some f \<Rightarrow> \<lparr>outcome = Inr (f v), world = s, invoked = [(u_type v, v)]\<rparr>
        | None \<Rightarrow>
            (case map_of fs ''*'' of
               Some w \<Rightarrow> \<lparr>outcome = Inr (w v), world = s, invoked = [(''*'', v)]\<rparr>
             | None \<Rightarrow>
                 \<lparr>outcome = Inl (new_Error ''Pattern unmacthed''), world = s, invoked = []\<rparr>))
   \<and> outcome (match v (pure_matchers fs) s1) = outcome (match v (pure_matchers fs) s2)
   \<and> world (match v (pure_matchers fs) s1) = s1
   \<and> world (match v (pure_matchers fs) s2) = s2"
proof -
  have selection: "invoked (match v H s1) = invoked (match v H s2)"
    by (simp add: invoked_match)
  have completion: "match v (pure_matchers fs) t =
       (case map_of fs (u_type v) of
          Some f \<Rightarrow> \<lparr>outcome = Inr (f v), world = t, invoked = [(u_type v, v)]\<rparr>
        | None \<Rightarrow>
            (case map_of fs ''*'' of
               Some w \<Rightarrow> \<lparr>outcome = Inr (w v), world = t, invoked = [(''*'', v)]\<rparr>
             | None \<Rightarrow>
                 \<lparr>outcome = Inl (new_Error ''Pattern unmacthed''), world = t, invoked = []\<rparr>))"
    for t :: 'w
    by (simp add: match_lookup map_of_pure_matchers call_function pure_handler_def throw_def
        split: option.splits)
  have "outcome (match v (pure_matchers fs) s1) = outcome (match v (pure_matchers fs) s2)"
    by (simp add: completion split: option.splits)
  moreover have "world (match v (pure_matchers fs) s1) = s1"
    and "world (match v (pure_matchers fs) s2) = s2"
    by (simp_all add: completion split: option.splits)
  ultimately show ?thesis
    using selection completion [of s] by simp
qed

theorem match_pure_deterministic_witness:
  "invoked (match binary_ten ws_matchers_default [''b'', ''c''])
     = invoked (match binary_ten ws_matchers_default [])
   \<and> invoked (match binary_ten ws_matchers_default []) = [(''binary'', binary_ten)]
   \<and> match binary_ten (pure_matchers ws_pure) [''a'']
     = \<lparr>outcome = Inr (Length 10), world = [''a''], invoked = [(''binary'', binary_ten)]\<rparr>
   \<and> outcome (match binary_ten (pure_matchers ws_pure) [''b'', ''c''])
     = outcome (match binary_ten (pure_matchers ws_pure) [])
   \<and> outcome (match binary_ten (pure_matchers ws_pure) []) = Inr (Length 10)
   \<and> world (match binary_ten (pure_matchers ws_pure) [''b'', ''c'']) = [''b'', ''c'']"
  using match_pure_deterministic
      [where v = binary_ten and H = ws_matchers_default and fs = ws_pure
         and s = "[''a'']" and ?s1.0 = "[''b'', ''c'']" and ?s2.0 = "[]"]
  by (simp add: ws_values dispatcher_defs pure_matchers_def pure_handler_def)

section \<open>The error value\<close>

text \<open>
  C8. When the dispatcher fails because no key of the table is the discriminant and there is
  no \<^verbatim>\<open>"*"\<close> entry, the error thrown is the value of \<^verbatim>\<open>new Error("Pattern unmacthed")\<close>:
  an object of the generic class \<^verbatim>\<open>Error\<close>, its message spelled as in the source. No
  error the dispatcher throws carries a name of its own such as UnmatchedPattern.
\<close>

theorem match_error_is_generic:
  assumes "outcome (match v H s) = Inl e"
  shows "(u_type v \<notin> fst ` set H \<and> ''*'' \<notin> fst ` set H \<longrightarrow>
            e = new_Error ''Pattern unmacthed''
            \<and> error_name e = ''Error''
            \<and> error_message e = ''Pattern unmacthed'')
         \<and> error_name e \<noteq> ''UnmatchedPattern''"
proof -
  have "e = new_Error ''Pattern unmacthed''
      \<and> error_name e = ''Error'' \<and> error_message e = ''Pattern unmacthed''"
    if "u_type v \<notin> fst ` set H \<and> ''*'' \<notin> fst ` set H"
  proof -
    from that have "match v H s = throw (new_Error ''Pattern unmacthed'') s"
      by (simp add: match_thrown)
    with assms have "e = new_Error ''Pattern unmacthed''"
      by (simp add: throw_def)
    then show ?thesis
      by (simp add: new_Error_def)
  qed
  moreover from match_threw(3) [OF assms] have "error_name e \<noteq> ''UnmatchedPattern''"
    by (auto simp: new_Error_def not_a_function_def)
  ultimately show ?thesis
    by blast
qed

theorem match_error_is_generic_witness:
  "outcome (match unknown_msg ws_matchers [])
     = Inl \<lparr>error_name = ''Error'', error_message = ''Pattern unmacthed''\<rparr>
   \<and> u_type unknown_msg \<notin> fst ` set ws_matchers \<and> ''*'' \<notin> fst ` set ws_matchers
   \<and> \<lparr>error_name = ''Error'', error_message = ''Pattern unmacthed''\<rparr>
       = new_Error ''Pattern unmacthed''
   \<and> error_name \<lparr>error_name = ''Error'', error_message = ''Pattern unmacthed''\<rparr>
       \<noteq> ''UnmatchedPattern''"
proof -
  have thrown: "outcome (match unknown_msg ws_matchers [])
      = Inl \<lparr>error_name = ''Error'', error_message = ''Pattern unmacthed''\<rparr>"
    by (simp add: ws_values dispatcher_defs)
  from match_error_is_generic [OF thrown] thrown show ?thesis
    by (simp add: new_Error_def ws_values)
qed

section \<open>Selection by the discriminant alone\<close>

text \<open>
  C9. Two values with the same discriminant are dispatched alike on any table, whatever
  their payloads and from whatever worlds: either the loop stops for both at the same entry,
  or it runs off the end for both; then either one and the same entry of the table is called
  on each, or both calls of the dispatcher throw.
\<close>

theorem match_selects_by_type_only:
  assumes "u_type v1 = u_type v2"
  shows "(for_entries H v1 s1 = None \<longleftrightarrow> for_entries H v2 s2 = None)
         \<and> ((\<exists>key handler. (key, handler) \<in> set H
                \<and> match v1 H s1 = call key handler v1 s1
                \<and> match v2 H s2 = call key handler v2 s2)
             \<or> (match v1 H s1 = throw (new_Error ''Pattern unmacthed'') s1
                \<and> match v2 H s2 = throw (new_Error ''Pattern unmacthed'') s2))"
proof -
  have scan: "for_entries H v1 s1 = None \<longleftrightarrow> for_entries H v2 s2 = None"
    using assms by (simp add: for_entries_None_iff)
  have run: "(\<exists>key handler. (key, handler) \<in> set H
                \<and> match v1 H s1 = call key handler v1 s1
                \<and> match v2 H s2 = call key handler v2 s2)
             \<or> (match v1 H s1 = throw (new_Error ''Pattern unmacthed'') s1
                \<and> match v2 H s2 = throw (new_Error ''Pattern unmacthed'') s2)"
  proof (cases "map_of H (u_type v1)")
    case (Some handler)
    then have "(u_type v1, handler) \<in> set H"
      by (rule map_of_SomeD)
    moreover from Some assms have "match v1 H s1 = call (u_type v1) handler v1 s1"
      and "match v2 H s2 = call (u_type v1) handler v2 s2"
      by (simp_all add: match_lookup)
    ultimately show ?thesis
      by blast
  next
    case None
    note absent = this
    show ?thesis
    proof (cases "map_of H ''*''")
      case (Some wildcard)
      then have "(''*'', wildcard) \<in> set H"
        by (rule map_of_SomeD)
      moreover from Some absent assms have "match v1 H s1 = call ''*'' wildcard v1 s1"
        and "match v2 H s2 = call ''*'' wildcard v2 s2"
        by (simp_all add: match_lookup)
      ultimately show ?thesis
        by blast
    next
      case None
      with absent assms show ?thesis
        by (simp add: match_lookup)
    qed
  qed
  from scan run show ?thesis
    by (rule conjI)
qed

theorem match_selects_by_type_only_witness:
  "u_type text_hello = u_type text_bye
   \<and> text_hello \<noteq> text_bye
   \<and> for_entries ws_matchers_default text_hello [] \<noteq> None
   \<and> for_entries ws_matchers_default text_bye [''x''] \<noteq> None
   \<and> (\<exists>key handler. (key, handler) \<in> set ws_matchers_default
         \<and> match text_hello ws_matchers_default [] = call key handler text_hello []
         \<and> match text_bye ws_matchers_default [''x''] = call key handler text_bye [''x''])"
  using match_selects_by_type_only [of text_hello text_bye ws_matchers_default "[]" "[''x'']"]
  by (simp add: ws_values dispatcher_defs)

section \<open>Nothing runs before the error\<close>

text \<open>
  C10. When the dispatcher fails because no key of the table is the discriminant and there
  is no \<^verbatim>\<open>"*"\<close> entry, it has called no handler, and the world is as it was before the
  call. The same holds of every call of the dispatcher that throws.
\<close>

theorem match_failure_calls_nothing:
  "(u_type v \<notin> fst ` set H \<and> ''*'' \<notin> fst ` set H \<longrightarrow>
      invoked (match v H s) = [] \<and> world (match v H s) = s)
   \<and> (outcome (match v H s) = Inl e \<longrightarrow>
         invoked (match v H s) = [] \<and> world (match v H s) = s)"
proof -
  have "invoked (match v H s) = [] \<and> world (match v H s) = s"
    if "u_type v \<notin> fst ` set H" and "''*'' \<notin> fst ` set H"
    using match_thrown [OF that] by (simp add: throw_def)
  moreover have "invoked (match v H s) = [] \<and> world (match v H s) = s"
    if "outcome (match v H s) = Inl e"
    using match_threw(1,2) [OF that] by simp
  ultimately show ?thesis
    by blast
qed

theorem match_failure_calls_nothing_witness:
  "u_type binary_ten \<notin> fst ` set [(''text'', Some log_text)]
   \<and> ''*'' \<notin> fst ` set [(''text'', Some log_text)]
   \<and> outcome (match binary_ten [(''text'', Some log_text)] [''kept''])
       = Inl (new_Error ''Pattern unmacthed'')
   \<and> invoked (match binary_ten [(''text'', Some log_text)] [''kept'']) = []
   \<and> world (match binary_ten [(''text'', Some log_text)] [''kept'']) = [''kept'']"
proof -
  have thrown: "outcome (match binary_ten [(''text'', Some log_text)] [''kept''])
      = Inl (new_Error ''Pattern unmacthed'')"
    by (simp add: ws_values dispatcher_defs)
  from match_failure_calls_nothing
    [of binary_ten "[(''text'', Some log_text)]" "[''kept'']" "new_Error ''Pattern unmacthed''"]
    thrown
  show ?thesis
    by (simp add: ws_values)
qed

end
